theory Spec2Isabelle
  imports Complex_Main
begin

section \<open>A node of the replicated key-value store (app.py)\<close>

text \<open>
  The node keeps one dictionary \<open>data\<close>, knows a fixed list of peers and serves four
  HTTP endpoints. The handlers are embedded as functions from the request and the
  dictionary to a response, the dictionary afterwards and the list of HTTP requests
  the handler sent to peers. The network is a parameter: a function that answers every
  outbound request with a status code or with a transport failure.
\<close>

subsection \<open>JSON values, as \<open>request.get_json()\<close> delivers them\<close>

text \<open>
  \<open>JNull\<close> is Python's \<open>None\<close>, which is also what \<open>dict.get\<close> returns for an absent
  field. A float is represented by its exact value; the not-a-number and infinite floats
  are outside JSON and are not represented. An object is the parsed dictionary, as a list
  of its items (its keys are distinct).
\<close>

datatype json =
    JNull
  | JBool bool
  | JInt int
  | JFloat rat
  | JStr string
  | JArr "json list"
  | JObj "(string \<times> json) list"

datatype py_error = BadRequest | AttributeError | TypeError

text \<open>Python's truth value of a JSON value (\<open>not key\<close> is its negation).\<close>

fun truthy :: "json \<Rightarrow> bool" where
  "truthy JNull = False"
| "truthy (JBool b) = b"
| "truthy (JInt i) = (i \<noteq> 0)"
| "truthy (JFloat r) = (r \<noteq> 0)"
| "truthy (JStr s) = (s \<noteq> [])"
| "truthy (JArr xs) = (xs \<noteq> [])"
| "truthy (JObj kvs) = (kvs \<noteq> [])"

text \<open>
  \<open>write_data.get(name)\<close>: the field's value, \<open>None\<close> when the object has no such field,
  and an \<open>AttributeError\<close> when the body is not an object (a list, a string, a number,
  a boolean and \<open>None\<close> have no \<open>get\<close>).
\<close>

fun dict_get :: "json \<Rightarrow> string \<Rightarrow> py_error + json" where
  "dict_get (JObj kvs) name = Inr (case map_of kvs name of None \<Rightarrow> JNull | Some v \<Rightarrow> v)"
| "dict_get _ name = Inl AttributeError"

subsection \<open>The dictionary \<open>data\<close>\<close>

text \<open>
  Keys of a Python dictionary are compared by \<open>==\<close> and must be hashable: \<open>True\<close>, \<open>1\<close> and
  \<open>1.0\<close> are one key, \<open>None\<close> is a key, and a list or a dictionary raises \<open>TypeError\<close>.
\<close>

datatype pykey = KNone | KNum rat | KStr string

type_synonym store = "pykey \<rightharpoonup> json"

fun to_key :: "json \<Rightarrow> py_error + pykey" where
  "to_key JNull = Inr KNone"
| "to_key (JBool b) = Inr (KNum (if b then 1 else 0))"
| "to_key (JInt i) = Inr (KNum (of_int i))"
| "to_key (JFloat r) = Inr (KNum r)"
| "to_key (JStr s) = Inr (KStr s)"
| "to_key (JArr xs) = Inl TypeError"
| "to_key (JObj kvs) = Inl TypeError"

text \<open>\<open>data[key] = value\<close>\<close>

definition setitem :: "store \<Rightarrow> json \<Rightarrow> json \<Rightarrow> py_error + store" where
  "setitem d key val =
     (case to_key key of Inl e \<Rightarrow> Inl e | Inr k \<Rightarrow> Inr (d(k \<mapsto> val)))"

subsection \<open>Requests, responses, the network\<close>

record request =
  body :: "json option"
  args :: "string \<rightharpoonup> string"

text \<open>
  \<open>request.get_json()\<close>: the parsed body; a body that is not JSON raises (the field
  \<open>body\<close> is \<open>None\<close> then).
\<close>

definition get_json :: "request \<Rightarrow> py_error + json" where
  "get_json req = (case body req of None \<Rightarrow> Inl BadRequest | Some j \<Rightarrow> Inr j)"

text \<open>A Flask response: the JSON document and the status code.\<close>

type_synonym response = "json \<times> nat"

text \<open>One \<open>requests.post(url, json=payload, timeout=t)\<close>.\<close>

record post =
  url :: string
  payload :: json
  timeout :: rat

datatype post_result = Response nat | RequestException

type_synonym network = "post \<Rightarrow> post_result"

text \<open>
  What a handler leaves behind: its response (or the exception that escapes it), the
  dictionary and the posts it sent to peers, in order.
\<close>

record outcome =
  response :: "py_error + response"
  data :: store
  sent :: "post list"

subsection \<open>The peers\<close>

definition PEER_NODES :: "string list" where
  "PEER_NODES = [''node1'', ''node2'', ''node3'']"

text \<open>\<open>PEER_URLS.values()\<close> of a node with the given \<open>NODE_ID\<close>.\<close>

definition PEER_URLS :: "string \<Rightarrow> string list" where
  "PEER_URLS node_id =
     map (\<lambda>node. ''http://'' @ node @ '':5000'') (filter (\<lambda>node. node \<noteq> node_id) PEER_NODES)"

definition mk_payload :: "json \<Rightarrow> json \<Rightarrow> json" where
  "mk_payload key val = JObj [(''key'', key), (''value'', val)]"

subsection \<open>Replication to the peers\<close>

text \<open>
  \<open>replicate_write\<close>: one post per peer, the answer and a transport failure are both
  ignored. The result is the list of posts sent.
\<close>

fun replicate_write_loop :: "network \<Rightarrow> json \<Rightarrow> string list \<Rightarrow> post list" where
  "replicate_write_loop net pl [] = []"
| "replicate_write_loop net pl (node_url # rest) =
     (let p = \<lparr>url = node_url @ ''/replicate'', payload = pl, timeout = 1/2\<rparr>
      in case net p of
           Response c \<Rightarrow> p # replicate_write_loop net pl rest
         | RequestException \<Rightarrow> p # replicate_write_loop net pl rest)"

definition replicate_write :: "network \<Rightarrow> string list \<Rightarrow> json \<Rightarrow> json \<Rightarrow> post list" where
  "replicate_write net peers key val = replicate_write_loop net (mk_payload key val) peers"

text \<open>
  \<open>send_request\<close>, the body of one thread of \<open>replicate_write_synchronous\<close>: it appends
  \<open>True\<close> to \<open>results\<close> when the peer answers 200 and leaves \<open>results\<close> alone otherwise.
\<close>

definition sync_post :: "json \<Rightarrow> string \<Rightarrow> post" where
  "sync_post pl u = \<lparr>url = u @ ''/replicate'', payload = pl, timeout = 2\<rparr>"

definition send_request :: "network \<Rightarrow> json \<Rightarrow> string \<Rightarrow> bool list \<Rightarrow> bool list \<times> post" where
  "send_request net pl u results =
     (let p = sync_post pl u
      in case net p of
           Response status_code \<Rightarrow>
             if status_code = 200 then (results @ [True], p) else (results, p)
         | RequestException \<Rightarrow> (results, p))"

text \<open>
  The threads, one per peer, share \<open>results\<close>. Each appends at most once and the function
  returns only \<open>len(results)\<close> after joining them all, so the threads are run here in the
  order of the peers.
\<close>

fun run_threads :: "network \<Rightarrow> json \<Rightarrow> string list \<Rightarrow> bool list \<Rightarrow> bool list \<times> post list" where
  "run_threads net pl [] results = (results, [])"
| "run_threads net pl (node_url # rest) results =
     (case send_request net pl node_url results of
        (results', p) \<Rightarrow>
          (case run_threads net pl rest results' of
             (results'', ps) \<Rightarrow> (results'', p # ps)))"

definition replicate_write_synchronous ::
  "network \<Rightarrow> string list \<Rightarrow> json \<Rightarrow> json \<Rightarrow> nat \<times> post list" where
  "replicate_write_synchronous net peers key val =
     (case run_threads net (mk_payload key val) peers [] of
        (results, ps) \<Rightarrow> (length results, ps))"

subsection \<open>The endpoints\<close>

definition quorum :: nat where
  "quorum = 1"

definition invalid_json :: response where
  "invalid_json = (JObj [(''error'', JStr ''Invalid JSON'')], 400)"

definition missing_key_or_value :: response where
  "missing_key_or_value = (JObj [(''error'', JStr ''Missing key or value'')], 400)"

definition write_committed :: response where
  "write_committed =
     (JObj [(''status'', JStr ''success''),
            (''message'', JStr ''Write committed with strong consistency'')], 200)"

definition quorum_not_met :: response where
  "quorum_not_met =
     (JObj [(''status'', JStr ''error''), (''message'', JStr ''Could not achieve quorum.'')], 503)"

definition write_accepted :: response where
  "write_accepted =
     (JObj [(''status'', JStr ''success''), (''message'', JStr ''Write accepted'')], 200)"

text \<open>
  The first part of \<open>handle_write\<close>, inside its \<open>try\<close>: the key and the value of the body,
  or the 400 response. Every exception is caught there.
\<close>

definition parse_write :: "request \<Rightarrow> response + (json \<times> json)" where
  "parse_write req =
     (case get_json req of
        Inl e \<Rightarrow> Inl invalid_json
      | Inr write_data \<Rightarrow>
          (case dict_get write_data ''key'' of
             Inl e \<Rightarrow> Inl invalid_json
           | Inr key \<Rightarrow>
               (case dict_get write_data ''value'' of
                  Inl e \<Rightarrow> Inl invalid_json
                | Inr val \<Rightarrow>
                    if \<not> truthy key \<or> val = JNull then Inl missing_key_or_value
                    else Inr (key, val))))"

text \<open>\<open>request.args.get('consistency', 'eventual')\<close>\<close>

definition consistency_of :: "request \<Rightarrow> string" where
  "consistency_of req = (case args req ''consistency'' of None \<Rightarrow> ''eventual'' | Some c \<Rightarrow> c)"

text \<open>
  \<open>handle_write\<close>. The assignment \<open>data[key] = value\<close> is outside the \<open>try\<close>: its
  \<open>TypeError\<close> for an unhashable key escapes the handler. In the strong branch the peers
  have been contacted by then; in the eventual branch the replication thread has not been
  started.
\<close>

definition handle_write :: "network \<Rightarrow> string list \<Rightarrow> request \<Rightarrow> store \<Rightarrow> outcome" where
  "handle_write net peers req d =
     (case parse_write req of
        Inl r \<Rightarrow> \<lparr>response = Inr r, data = d, sent = []\<rparr>
      | Inr (key, val) \<Rightarrow>
          if consistency_of req = ''strong'' then
            (case replicate_write_synchronous net peers key val of
               (acks, ps) \<Rightarrow>
                 if acks \<ge> quorum then
                   (case setitem d key val of
                      Inl e \<Rightarrow> \<lparr>response = Inl e, data = d, sent = ps\<rparr>
                    | Inr d' \<Rightarrow> \<lparr>response = Inr write_committed, data = d', sent = ps\<rparr>)
                 else \<lparr>response = Inr quorum_not_met, data = d, sent = ps\<rparr>)
          else
            (case setitem d key val of
               Inl e \<Rightarrow> \<lparr>response = Inl e, data = d, sent = []\<rparr>
             | Inr d' \<Rightarrow>
                 \<lparr>response = Inr write_accepted, data = d',
                  sent = replicate_write net peers key val\<rparr>))"

text \<open>\<open>handle_read\<close>: the key is the path segment of the URL, a string.\<close>

definition handle_read :: "string \<Rightarrow> store \<Rightarrow> response" where
  "handle_read key d =
     (case d (KStr key) of
        Some v \<Rightarrow> (JObj [(''key'', JStr key), (''value'', v)], 200)
      | None \<Rightarrow> (JObj [(''error'', JStr ''Key not found'')], 404))"

definition replication_ok :: response where
  "replication_ok = (JObj [(''status'', JStr ''success'')], 200)"

definition invalid_replication_data :: response where
  "invalid_replication_data = (JObj [(''error'', JStr ''Invalid replication data'')], 400)"

text \<open>
  \<open>handle_replication\<close>: everything is inside the \<open>try\<close>, so the \<open>TypeError\<close> of an
  unhashable key is answered with 400 too. Nothing checks the key or the value.
\<close>

definition handle_replication :: "request \<Rightarrow> store \<Rightarrow> outcome" where
  "handle_replication req d =
     (case get_json req of
        Inl e \<Rightarrow> \<lparr>response = Inr invalid_replication_data, data = d, sent = []\<rparr>
      | Inr replication_data \<Rightarrow>
          (case dict_get replication_data ''key'' of
             Inl e \<Rightarrow> \<lparr>response = Inr invalid_replication_data, data = d, sent = []\<rparr>
           | Inr key \<Rightarrow>
               (case dict_get replication_data ''value'' of
                  Inl e \<Rightarrow> \<lparr>response = Inr invalid_replication_data, data = d, sent = []\<rparr>
                | Inr val \<Rightarrow>
                    (case setitem d key val of
                       Inl e \<Rightarrow> \<lparr>response = Inr invalid_replication_data, data = d, sent = []\<rparr>
                     | Inr d' \<Rightarrow> \<lparr>response = Inr replication_ok, data = d', sent = []\<rparr>))))"

section \<open>Properties\<close>

subsection \<open>Auxiliary facts\<close>

lemma send_request_eq:
  "send_request net pl u results =
     (if net (sync_post pl u) = Response 200 then results @ [True] else results, sync_post pl u)"
  by (simp add: send_request_def Let_def split: post_result.splits)

lemma run_threads_length:
  "length (fst (run_threads net pl peers results)) =
     length results + length (filter (\<lambda>u. net (sync_post pl u) = Response 200) peers)"
  by (induction peers arbitrary: results) (simp_all add: send_request_eq case_prod_beta)

lemma run_threads_sent:
  "snd (run_threads net pl peers results) = map (sync_post pl) peers"
  by (induction peers arbitrary: results) (simp_all add: send_request_eq case_prod_beta)

lemma acks_count:
  "fst (replicate_write_synchronous net peers key val) =
     length (filter (\<lambda>u. net (sync_post (mk_payload key val) u) = Response 200) peers)"
  by (simp add: replicate_write_synchronous_def case_prod_beta run_threads_length)

lemma parse_write_valid:
  assumes "body req = Some (JObj kvs)" "map_of kvs ''key'' = Some key" "truthy key"
    "map_of kvs ''value'' = Some val" "val \<noteq> JNull"
  shows "parse_write req = Inr (key, val)"
  using assms by (simp add: parse_write_def get_json_def)

lemma parse_write_invalid:
  assumes "body req = Some (JObj kvs)"
    "\<not> truthy (case map_of kvs ''key'' of None \<Rightarrow> JNull | Some v \<Rightarrow> v)
     \<or> (case map_of kvs ''value'' of None \<Rightarrow> JNull | Some v \<Rightarrow> v) = JNull"
  shows "parse_write req = Inl missing_key_or_value"
  using assms by (auto simp add: parse_write_def get_json_def)

text \<open>The peer list of the program as shipped is never empty, whatever the node is called.\<close>

lemma PEER_URLS_length: "2 \<le> length (PEER_URLS node_id)"
  by (auto simp add: PEER_URLS_def PEER_NODES_def)


subsection \<open>The branches of \<open>handle_write\<close>\<close>

lemma strong_reject:
  assumes "parse_write req = Inr (key, val)" "consistency_of req = ''strong''"
    "fst (replicate_write_synchronous net peers key val) < quorum"
  shows "handle_write net peers req d =
     \<lparr>response = Inr quorum_not_met, data = d,
      sent = snd (replicate_write_synchronous net peers key val)\<rparr>"
  using assms by (simp add: handle_write_def case_prod_beta)

lemma strong_commit:
  assumes "parse_write req = Inr (key, val)" "consistency_of req = ''strong''"
    "quorum \<le> fst (replicate_write_synchronous net peers key val)" "to_key key = Inr k"
  shows "handle_write net peers req d =
     \<lparr>response = Inr write_committed, data = d(k \<mapsto> val),
      sent = snd (replicate_write_synchronous net peers key val)\<rparr>"
  using assms by (simp add: handle_write_def case_prod_beta setitem_def)

lemma eventual_commit:
  assumes "parse_write req = Inr (key, val)" "consistency_of req \<noteq> ''strong''"
    "to_key key = Inr k"
  shows "handle_write net peers req d =
     \<lparr>response = Inr write_accepted, data = d(k \<mapsto> val),
      sent = replicate_write net peers key val\<rparr>"
  using assms by (simp add: handle_write_def case_prod_beta setitem_def)

lemma invalid_reject:
  assumes "parse_write req = Inl r"
  shows "handle_write net peers req d = \<lparr>response = Inr r, data = d, sent = []\<rparr>"
  using assms by (simp add: handle_write_def)

lemma consistency_strong:
  "args req ''consistency'' = Some ''strong'' \<Longrightarrow> consistency_of req = ''strong''"
  by (simp add: consistency_of_def)

lemma consistency_not_strong:
  "args req ''consistency'' \<noteq> Some ''strong'' \<Longrightarrow> consistency_of req \<noteq> ''strong''"
  by (auto simp add: consistency_of_def split: option.splits)

lemma handle_read_update:
  "handle_read k (d(KStr k \<mapsto> v)) = (JObj [(''key'', JStr k), (''value'', v)], 200)"
  by (simp add: handle_read_def)

subsection \<open>The claims\<close>

text \<open>
  C1, at a payload without a key and at one without a value: \<open>handle_replication\<close>
  answers 200 both times. The value of \<open>{"value": 1}\<close> is stored under the key \<open>None\<close>,
  and \<open>{"key": "x"}\<close> overwrites the entry of \<open>x\<close> with \<open>None\<close>. Neither payload is
  rejected and neither leaves the dictionary as it was.
\<close>

theorem replication_missing_field_is_stored:
  "handle_replication \<lparr>body = Some (JObj [(''value'', JInt 1)]), args = Map.empty\<rparr> Map.empty
     = \<lparr>response = Inr replication_ok, data = [KNone \<mapsto> JInt 1], sent = []\<rparr>
   \<and> handle_replication \<lparr>body = Some (JObj [(''key'', JStr ''x'')]), args = Map.empty\<rparr>
       [KStr ''x'' \<mapsto> JInt 5]
     = \<lparr>response = Inr replication_ok, data = [KStr ''x'' \<mapsto> JNull], sent = []\<rparr>
   \<and> snd replication_ok = 200"
  by (simp add: handle_replication_def get_json_def setitem_def replication_ok_def)

text \<open>
  C2: a strong write that passes the validation and is acknowledged by fewer than
  \<open>quorum\<close> peers is answered with the quorum error and status 503, the dictionary is
  the one before the call, and so every read afterwards gives what it gave before.
\<close>

theorem strong_write_quorum_not_met:
  assumes "body req = Some (JObj kvs)"
    and "map_of kvs ''key'' = Some key" and "truthy key"
    and "map_of kvs ''value'' = Some val" and "val \<noteq> JNull"
    and "args req ''consistency'' = Some ''strong''"
    and "length (filter (\<lambda>u. net (sync_post (mk_payload key val) u) = Response 200) peers)
           < quorum"
  shows "response (handle_write net peers req d) = Inr quorum_not_met
       \<and> snd quorum_not_met = 503
       \<and> data (handle_write net peers req d) = d
       \<and> (\<forall>k. handle_read k (data (handle_write net peers req d)) = handle_read k d)"
proof -
  have p: "parse_write req = Inr (key, val)"
    using assms(1-5) by (rule parse_write_valid)
  have a: "fst (replicate_write_synchronous net peers key val) < quorum"
    using assms(7) by (simp add: acks_count)
  show ?thesis
    by (simp add: strong_reject [OF p consistency_strong [OF assms(6)] a] quorum_not_met_def)
qed

theorem strong_write_quorum_not_met_witness:
  "response (handle_write (\<lambda>p. RequestException) (PEER_URLS ''node1'')
       \<lparr>body = Some (JObj [(''key'', JStr ''y''), (''value'', JStr ''2'')]),
        args = [''consistency'' \<mapsto> ''strong'']\<rparr> Map.empty) = Inr quorum_not_met
   \<and> handle_read ''y'' (data (handle_write (\<lambda>p. RequestException) (PEER_URLS ''node1'')
       \<lparr>body = Some (JObj [(''key'', JStr ''y''), (''value'', JStr ''2'')]),
        args = [''consistency'' \<mapsto> ''strong'']\<rparr> Map.empty))
     = (JObj [(''error'', JStr ''Key not found'')], 404)"
  using strong_write_quorum_not_met [of
      "\<lparr>body = Some (JObj [(''key'', JStr ''y''), (''value'', JStr ''2'')]),
        args = [''consistency'' \<mapsto> ''strong'']\<rparr>"
      "[(''key'', JStr ''y''), (''value'', JStr ''2'')]" "JStr ''y''" "JStr ''2''"
      "\<lambda>p. RequestException" "PEER_URLS ''node1''" Map.empty]
  by (simp add: quorum_def handle_read_def)

text \<open>
  C3: a strong write of a non-empty string key and a value other than \<open>None\<close> that at least
  \<open>quorum\<close> peers acknowledge is answered with the commit response (status 200), the
  dictionary is the old one with the key set to the value, and a read of the key gives
  the value.
\<close>

theorem strong_write_commits:
  assumes "body req = Some (JObj kvs)"
    and "map_of kvs ''key'' = Some (JStr k)" and "k \<noteq> []"
    and "map_of kvs ''value'' = Some val" and "val \<noteq> JNull"
    and "args req ''consistency'' = Some ''strong''"
    and "quorum \<le>
      length (filter (\<lambda>u. net (sync_post (mk_payload (JStr k) val) u) = Response 200) peers)"
  shows "response (handle_write net peers req d) = Inr write_committed
       \<and> snd write_committed = 200
       \<and> data (handle_write net peers req d) = d(KStr k \<mapsto> val)
       \<and> handle_read k (data (handle_write net peers req d))
           = (JObj [(''key'', JStr k), (''value'', val)], 200)"
proof -
  have p: "parse_write req = Inr (JStr k, val)"
    using assms(1-5) by (simp add: parse_write_valid)
  have a: "quorum \<le> fst (replicate_write_synchronous net peers (JStr k) val)"
    using assms(7) by (simp add: acks_count)
  have "to_key (JStr k) = Inr (KStr k)"
    by simp
  from strong_commit [OF p consistency_strong [OF assms(6)] a this]
  show ?thesis
    by (simp add: handle_read_update write_committed_def)
qed

theorem strong_write_commits_witness:
  "response (handle_write
       (\<lambda>p. if url p = ''http://node2:5000/replicate'' then Response 200 else RequestException)
       (PEER_URLS ''node1'')
       \<lparr>body = Some (JObj [(''key'', JStr ''x''), (''value'', JStr ''1'')]),
        args = [''consistency'' \<mapsto> ''strong'']\<rparr> Map.empty) = Inr write_committed
   \<and> handle_read ''x'' (data (handle_write
       (\<lambda>p. if url p = ''http://node2:5000/replicate'' then Response 200 else RequestException)
       (PEER_URLS ''node1'')
       \<lparr>body = Some (JObj [(''key'', JStr ''x''), (''value'', JStr ''1'')]),
        args = [''consistency'' \<mapsto> ''strong'']\<rparr> Map.empty))
     = (JObj [(''key'', JStr ''x''), (''value'', JStr ''1'')], 200)"
  using strong_write_commits [of
      "\<lparr>body = Some (JObj [(''key'', JStr ''x''), (''value'', JStr ''1'')]),
        args = [''consistency'' \<mapsto> ''strong'']\<rparr>"
      "[(''key'', JStr ''x''), (''value'', JStr ''1'')]" "''x''" "JStr ''1''"
      "\<lambda>p. if url p = ''http://node2:5000/replicate'' then Response 200 else RequestException"
      "PEER_URLS ''node1''" Map.empty]
  by (simp add: quorum_def PEER_URLS_def PEER_NODES_def sync_post_def handle_read_def)

text \<open>
  C4: a write of a non-empty string key and a value other than \<open>None\<close> whose consistency
  parameter is absent or not \<open>strong\<close> is answered with the accepted response (status
  200) whatever the peers answer, the dictionary is the old one with the key set to the
  value, and a read of the key gives the value.
\<close>

theorem eventual_write_commits:
  assumes "body req = Some (JObj kvs)"
    and "map_of kvs ''key'' = Some (JStr k)" and "k \<noteq> []"
    and "map_of kvs ''value'' = Some val" and "val \<noteq> JNull"
    and "args req ''consistency'' \<noteq> Some ''strong''"
  shows "response (handle_write net peers req d) = Inr write_accepted
       \<and> snd write_accepted = 200
       \<and> data (handle_write net peers req d) = d(KStr k \<mapsto> val)
       \<and> handle_read k (data (handle_write net peers req d))
           = (JObj [(''key'', JStr k), (''value'', val)], 200)"
proof -
  have p: "parse_write req = Inr (JStr k, val)"
    using assms(1-5) by (simp add: parse_write_valid)
  have "to_key (JStr k) = Inr (KStr k)"
    by simp
  from eventual_commit [OF p consistency_not_strong [OF assms(6)] this]
  show ?thesis
    by (simp add: handle_read_update write_accepted_def)
qed

theorem eventual_write_commits_witness:
  "response (handle_write (\<lambda>p. RequestException) (PEER_URLS ''node1'')
       \<lparr>body = Some (JObj [(''key'', JStr ''z''), (''value'', JStr ''3'')]),
        args = Map.empty\<rparr> Map.empty) = Inr write_accepted
   \<and> handle_read ''z'' (data (handle_write (\<lambda>p. RequestException) (PEER_URLS ''node1'')
       \<lparr>body = Some (JObj [(''key'', JStr ''z''), (''value'', JStr ''3'')]),
        args = Map.empty\<rparr> Map.empty))
     = (JObj [(''key'', JStr ''z''), (''value'', JStr ''3'')], 200)"
  using eventual_write_commits [of
      "\<lparr>body = Some (JObj [(''key'', JStr ''z''), (''value'', JStr ''3'')]), args = Map.empty\<rparr>"
      "[(''key'', JStr ''z''), (''value'', JStr ''3'')]" "''z''" "JStr ''3''"
      "\<lambda>p. RequestException" "PEER_URLS ''node1''" Map.empty]
  by (simp add: handle_read_def)


text \<open>
  C5: a write whose body has no key, the key \<open>None\<close> or the empty string, or has no value
  or the value \<open>None\<close>, is answered with the missing-key-or-value error (status 400), the
  dictionary is the one before the call and no post is sent to any peer.
\<close>

theorem invalid_write_rejected:
  assumes "body req = Some (JObj kvs)"
    and "map_of kvs ''key'' \<in> {None, Some JNull, Some (JStr [])}
         \<or> map_of kvs ''value'' \<in> {None, Some JNull}"
  shows "handle_write net peers req d =
           \<lparr>response = Inr missing_key_or_value, data = d, sent = []\<rparr>
       \<and> snd missing_key_or_value = 400"
proof -
  have "\<not> truthy (case map_of kvs ''key'' of None \<Rightarrow> JNull | Some v \<Rightarrow> v)
      \<or> (case map_of kvs ''value'' of None \<Rightarrow> JNull | Some v \<Rightarrow> v) = JNull"
    using assms(2) by auto
  with assms(1) have "parse_write req = Inl missing_key_or_value"
    by (rule parse_write_invalid)
  then show ?thesis
    by (simp add: invalid_reject missing_key_or_value_def)
qed

theorem invalid_write_rejected_witness:
  "handle_write (\<lambda>p. Response 200) (PEER_URLS ''node1'')
       \<lparr>body = Some (JObj [(''value'', JStr ''v'')]), args = [''consistency'' \<mapsto> ''strong'']\<rparr>
       [KStr ''a'' \<mapsto> JInt 7]
     = \<lparr>response = Inr missing_key_or_value, data = [KStr ''a'' \<mapsto> JInt 7], sent = []\<rparr>"
  using invalid_write_rejected [of
      "\<lparr>body = Some (JObj [(''value'', JStr ''v'')]), args = [''consistency'' \<mapsto> ''strong'']\<rparr>"
      "[(''value'', JStr ''v'')]" "\<lambda>p. Response 200" "PEER_URLS ''node1''"
      "[KStr ''a'' \<mapsto> JInt 7]"]
  by simp

text \<open>
  C6: one thread of the synchronous fan-out lengthens \<open>results\<close> exactly when its peer
  answers with status 200 (no other status and no transport failure does), and the
  number \<open>replicate_write_synchronous\<close> returns is the number of peers that answer 200.
\<close>

theorem sync_acks_are_the_200_answers:
  "(length (fst (send_request net pl u results)) = Suc (length results)
      \<longleftrightarrow> net (sync_post pl u) = Response 200)
   \<and> (net (sync_post pl u) \<noteq> Response 200
      \<longleftrightarrow> fst (send_request net pl u results) = results)
   \<and> fst (replicate_write_synchronous net peers key val) =
       length (filter (\<lambda>u. net (sync_post (mk_payload key val) u) = Response 200) peers)"
  by (simp add: send_request_eq acks_count)

theorem sync_acks_are_the_200_answers_witness:
  "fst (replicate_write_synchronous
      (\<lambda>p. if url p = ''http://node2:5000/replicate'' then Response 200
           else if url p = ''http://node3:5000/replicate'' then Response 400
           else RequestException)
      [''http://node2:5000'', ''http://node3:5000'', ''http://node4:5000'']
      (JStr ''x'') (JStr ''1'')) = 1"
  using sync_acks_are_the_200_answers [of
      "\<lambda>p. if url p = ''http://node2:5000/replicate'' then Response 200
           else if url p = ''http://node3:5000/replicate'' then Response 400
           else RequestException"
      "mk_payload (JStr ''x'') (JStr ''1'')" "''http://node2:5000''" "[]"
      "[''http://node2:5000'', ''http://node3:5000'', ''http://node4:5000'']"
      "JStr ''x''" "JStr ''1''"]
  by (simp add: sync_post_def)

text \<open>
  C7: handling the same replication request a second time gives the same answer and
  leaves the dictionary as the first handling left it.
\<close>

theorem replication_idempotent:
  "handle_replication req (data (handle_replication req d)) = handle_replication req d"
  by (simp add: handle_replication_def setitem_def split: sum.splits)

theorem replication_idempotent_witness:
  "data (handle_replication
       \<lparr>body = Some (JObj [(''key'', JStr ''x''), (''value'', JInt 1)]), args = Map.empty\<rparr>
       (data (handle_replication
          \<lparr>body = Some (JObj [(''key'', JStr ''x''), (''value'', JInt 1)]), args = Map.empty\<rparr>
          Map.empty)))
     = [KStr ''x'' \<mapsto> JInt 1]"
  using replication_idempotent [of
      "\<lparr>body = Some (JObj [(''key'', JStr ''x''), (''value'', JInt 1)]), args = Map.empty\<rparr>"
      Map.empty]
  by (simp add: handle_replication_def get_json_def setitem_def)

text \<open>
  C8: \<open>handle_replication\<close> sends no post to any peer, and the dictionary after it is the
  one before it or the one before it with one key set.
\<close>

theorem replication_sends_nothing:
  "sent (handle_replication req d) = []
   \<and> (data (handle_replication req d) = d
      \<or> (\<exists>k v. data (handle_replication req d) = d(k \<mapsto> v)))"
  by (auto simp add: handle_replication_def setitem_def split: sum.splits)

theorem replication_sends_nothing_witness:
  "sent (handle_replication
       \<lparr>body = Some (JObj [(''key'', JStr ''x''), (''value'', JInt 1)]), args = Map.empty\<rparr>
       Map.empty) = []"
  using replication_sends_nothing [of
      "\<lparr>body = Some (JObj [(''key'', JStr ''x''), (''value'', JInt 1)]), args = Map.empty\<rparr>"
      Map.empty]
  by simp

text \<open>
  C9: with no peers, a strong write that passes the validation counts 0
  acknowledgements, is answered with the quorum error, leaves the dictionary as it was
  and sends nothing.
\<close>

theorem strong_write_without_peers:
  assumes "body req = Some (JObj kvs)"
    and "map_of kvs ''key'' = Some key" and "truthy key"
    and "map_of kvs ''value'' = Some val" and "val \<noteq> JNull"
    and "args req ''consistency'' = Some ''strong''"
  shows "fst (replicate_write_synchronous net [] key val) = 0
       \<and> fst (replicate_write_synchronous net [] key val) < quorum
       \<and> handle_write net [] req d = \<lparr>response = Inr quorum_not_met, data = d, sent = []\<rparr>"
proof -
  have p: "parse_write req = Inr (key, val)"
    using assms(1-5) by (rule parse_write_valid)
  have z: "replicate_write_synchronous net [] key val = (0, [])"
    by (simp add: replicate_write_synchronous_def)
  then have a: "fst (replicate_write_synchronous net [] key val) < quorum"
    by (simp add: quorum_def)
  show ?thesis
    using strong_reject [OF p consistency_strong [OF assms(6)] a] z a by simp
qed

theorem strong_write_without_peers_witness:
  "handle_write (\<lambda>p. Response 200) []
       \<lparr>body = Some (JObj [(''key'', JStr ''x''), (''value'', JStr ''1'')]),
        args = [''consistency'' \<mapsto> ''strong'']\<rparr> [KStr ''x'' \<mapsto> JStr ''0'']
     = \<lparr>response = Inr quorum_not_met, data = [KStr ''x'' \<mapsto> JStr ''0''], sent = []\<rparr>"
  using strong_write_without_peers [of
      "\<lparr>body = Some (JObj [(''key'', JStr ''x''), (''value'', JStr ''1'')]),
        args = [''consistency'' \<mapsto> ''strong'']\<rparr>"
      "[(''key'', JStr ''x''), (''value'', JStr ''1'')]" "JStr ''x''" "JStr ''1''"
      "\<lambda>p. Response 200" "[KStr ''x'' \<mapsto> JStr ''0'']"]
  by simp

text \<open>
  C10: a write whose key is present and is 0, 0.0, \<open>False\<close>, the empty string, the empty
  list or the empty object is answered with the missing-key-or-value error, the
  dictionary unchanged and no post sent. A write of a non-empty string key with the value
  0, \<open>False\<close> or the empty string passes the validation: it is stored and answered with
  200 in the eventual branch, and in the strong branch when \<open>quorum\<close> peers acknowledge.
\<close>

theorem write_key_truthiness:
  assumes "body req = Some (JObj kvs)" and "body req' = Some (JObj kvs')"
    and "map_of kvs ''key'' = Some key"
    and "key \<in> {JInt 0, JFloat 0, JBool False, JStr [], JArr [], JObj []}"
    and "map_of kvs' ''key'' = Some (JStr k)" and "k \<noteq> []"
    and "map_of kvs' ''value'' = Some val"
    and "val \<in> {JInt 0, JBool False, JStr []}"
  shows "handle_write net peers req d =
           \<lparr>response = Inr missing_key_or_value, data = d, sent = []\<rparr>
       \<and> (args req' ''consistency'' \<noteq> Some ''strong'' \<longrightarrow>
            response (handle_write net peers req' d) = Inr write_accepted
          \<and> data (handle_write net peers req' d) = d(KStr k \<mapsto> val))
       \<and> (args req' ''consistency'' = Some ''strong''
          \<and> quorum \<le> length (filter
               (\<lambda>u. net (sync_post (mk_payload (JStr k) val) u) = Response 200) peers) \<longrightarrow>
            response (handle_write net peers req' d) = Inr write_committed
          \<and> data (handle_write net peers req' d) = d(KStr k \<mapsto> val))"
proof (intro conjI impI)
  have "\<not> truthy key"
    using assms(4) by auto
  then have "parse_write req = Inl missing_key_or_value"
    using assms(1,3) by (simp add: parse_write_invalid)
  then show "handle_write net peers req d =
      \<lparr>response = Inr missing_key_or_value, data = d, sent = []\<rparr>"
    by (rule invalid_reject)
next
  have "val \<noteq> JNull"
    using assms(8) by auto
  then have p: "parse_write req' = Inr (JStr k, val)"
    using assms(2,5,6,7) by (simp add: parse_write_valid)
  have t: "to_key (JStr k) = Inr (KStr k)"
    by simp
  {
    assume e: "args req' ''consistency'' \<noteq> Some ''strong''"
    have w: "handle_write net peers req' d =
        \<lparr>response = Inr write_accepted, data = d(KStr k \<mapsto> val),
         sent = replicate_write net peers (JStr k) val\<rparr>"
      using p consistency_not_strong [OF e] t by (rule eventual_commit)
    show "response (handle_write net peers req' d) = Inr write_accepted"
      by (simp add: w)
    show "data (handle_write net peers req' d) = d(KStr k \<mapsto> val)"
      by (simp add: w)
  }
  {
    assume s: "args req' ''consistency'' = Some ''strong''
      \<and> quorum \<le> length (filter
           (\<lambda>u. net (sync_post (mk_payload (JStr k) val) u) = Response 200) peers)"
    then have a: "quorum \<le> fst (replicate_write_synchronous net peers (JStr k) val)"
      by (simp add: acks_count)
    have c: "consistency_of req' = ''strong''"
      using s by (simp add: consistency_strong)
    have w: "handle_write net peers req' d =
        \<lparr>response = Inr write_committed, data = d(KStr k \<mapsto> val),
         sent = snd (replicate_write_synchronous net peers (JStr k) val)\<rparr>"
      using p c a t by (rule strong_commit)
    show "response (handle_write net peers req' d) = Inr write_committed"
      by (simp add: w)
    show "data (handle_write net peers req' d) = d(KStr k \<mapsto> val)"
      by (simp add: w)
  }
qed

theorem write_key_truthiness_witness:
  "handle_write (\<lambda>p. Response 200) (PEER_URLS ''node1'')
       \<lparr>body = Some (JObj [(''key'', JInt 0), (''value'', JStr ''v'')]), args = Map.empty\<rparr>
       Map.empty
     = \<lparr>response = Inr missing_key_or_value, data = Map.empty, sent = []\<rparr>
   \<and> response (handle_write (\<lambda>p. Response 200) (PEER_URLS ''node1'')
       \<lparr>body = Some (JObj [(''key'', JStr ''k''), (''value'', JInt 0)]), args = Map.empty\<rparr>
       Map.empty) = Inr write_accepted
   \<and> data (handle_write (\<lambda>p. Response 200) (PEER_URLS ''node1'')
       \<lparr>body = Some (JObj [(''key'', JStr ''k''), (''value'', JInt 0)]), args = Map.empty\<rparr>
       Map.empty) = [KStr ''k'' \<mapsto> JInt 0]
   \<and> data (handle_write (\<lambda>p. Response 200) (PEER_URLS ''node1'')
       \<lparr>body = Some (JObj [(''key'', JStr ''k''), (''value'', JBool False)]),
        args = [''consistency'' \<mapsto> ''strong'']\<rparr>
       Map.empty) = [KStr ''k'' \<mapsto> JBool False]"
  using write_key_truthiness [of
      "\<lparr>body = Some (JObj [(''key'', JInt 0), (''value'', JStr ''v'')]), args = Map.empty\<rparr>"
      "[(''key'', JInt 0), (''value'', JStr ''v'')]"
      "\<lparr>body = Some (JObj [(''key'', JStr ''k''), (''value'', JInt 0)]), args = Map.empty\<rparr>"
      "[(''key'', JStr ''k''), (''value'', JInt 0)]" "JInt 0" "''k''" "JInt 0"
      "\<lambda>p. Response 200" "PEER_URLS ''node1''" Map.empty]
    write_key_truthiness [of
      "\<lparr>body = Some (JObj [(''key'', JInt 0), (''value'', JStr ''v'')]), args = Map.empty\<rparr>"
      "[(''key'', JInt 0), (''value'', JStr ''v'')]"
      "\<lparr>body = Some (JObj [(''key'', JStr ''k''), (''value'', JBool False)]),
        args = [''consistency'' \<mapsto> ''strong'']\<rparr>"
      "[(''key'', JStr ''k''), (''value'', JBool False)]" "JInt 0" "''k''" "JBool False"
      "\<lambda>p. Response 200" "PEER_URLS ''node1''" Map.empty]
  by (simp add: quorum_def PEER_URLS_def PEER_NODES_def)


end
